theory Spec2Isabelle
  imports Main
begin

section \<open>The template \<^verbatim>\<open>open-codegen/templates/icasadi_config.h\<close>\<close>

text \<open>
  The program is a Jinja2 template: a C header with three substitution expressions,
  \<^verbatim>\<open>{{nu}}\<close>, \<^verbatim>\<open>{{np}}\<close> and \<^verbatim>\<open>{{ncp or 0}}\<close>. The file is kept as it is
  written, one string per line of the file; the file has 29 lines and no newline after
  the last one.
\<close>

abbreviation newline :: char where
  "newline \<equiv> CHR 0x0A"

definition template_lines :: "string list" where
  "template_lines =
    [''/*'',
     '' * Auto-generated header file'',
     '' * This file is part of OptimizationEngine'',
     '' * (see https://alphaville.github.io/optimization-engine/)'',
     '' */'',
     ''#ifndef ICASADI_CONFIG_HEADER_SENTINEL'',
     ''#define ICASADI_CONFIG_HEADER_SENTINEL'',
     '''',
     ''/* Global constant definitions */'',
     '''',
     ''/* Number of decision variables */'',
     ''#define CASADI_NU {{nu}}'',
     '''',
     ''/* Number of parameters */'',
     ''#define CASADI_NP {{np}}'',
     '''',
     ''/* Number of constraints to be treated using the penalty method */'',
     ''#define CASADI_NUM_CONSTAINTS_TYPE_PENALTY {{ncp or 0}}'',
     '''',
     ''/* Name of cost function */'',
     ''#define CASADI_COST_NAME phi'',
     '''',
     ''/* Name of the gradient of the cost function */'',
     ''#define CASADI_GRAD_NAME grad_phi'',
     '''',
     ''/* Name of c(x) -- constraints as penalties */'',
     ''#define CASADI_CONSTRAINTS_AS_PENALTY_NAME constraints_as_penalty'',
     '''',
     ''#endif'']"

fun join_lines :: "string list \<Rightarrow> string" where
  "join_lines [] = []"
| "join_lines [l] = l"
| "join_lines (l # m # ls) = l @ newline # join_lines (m # ls)"

definition icasadi_config_h :: string where
  "icasadi_config_h = join_lines template_lines"

section \<open>The values a template expression can have\<close>

text \<open>
  The template is rendered over a context, a dictionary from variable names to Python
  values. A name the context does not bind evaluates to Jinja's \<^verbatim>\<open>Undefined\<close>, which
  is false as a condition and prints as the empty string. Integers are Python's
  unbounded ones.
\<close>

datatype pyval = Undefined | PyNone | PyInt int | PyStr string

type_synonym py_context = "string \<rightharpoonup> pyval"

fun truthy :: "pyval \<Rightarrow> bool" where
  "truthy Undefined = False"
| "truthy PyNone = False"
| "truthy (PyInt i) = (i \<noteq> 0)"
| "truthy (PyStr s) = (s \<noteq> [])"

definition digit_char :: "nat \<Rightarrow> char" where
  "digit_char k = ''0123456789'' ! k"

fun digits :: "nat \<Rightarrow> string" where
  "digits n = (if n < 10 then [digit_char n] else digits (n div 10) @ [digit_char (n mod 10)])"

declare digits.simps [simp del]

definition str_int :: "int \<Rightarrow> string" where
  "str_int i = (if i < 0 then CHR ''-'' # digits (nat (- i)) else digits (nat i))"

fun py_str :: "pyval \<Rightarrow> string" where
  "py_str Undefined = []"
| "py_str PyNone = ''None''"
| "py_str (PyInt i) = str_int i"
| "py_str (PyStr s) = s"

section \<open>The fragment of Jinja2 the template uses\<close>

text \<open>
  The lexer cuts the source into literal data and the texts between \<^verbatim>\<open>{{\<close> and
  \<^verbatim>\<open>}}\<close>. The template has no block (\<^verbatim>\<open>{%\<close>) and no comment (\<^verbatim>\<open>{#\<close>)
  delimiter. A \<^verbatim>\<open>{{\<close> that is never closed is a syntax error.
\<close>

datatype token = Data string | Variable string

datatype render_error = TemplateSyntaxError

fun tokenize :: "bool \<Rightarrow> string \<Rightarrow> string \<Rightarrow> token list option" where
  "tokenize invar acc [] = (if invar then None else Some [Data (rev acc)])"
| "tokenize invar acc [c] = tokenize invar (c # acc) []"
| "tokenize invar acc (c # d # cs) =
     (if \<not> invar \<and> c = CHR ''{'' \<and> d = CHR ''{''
        then map_option (Cons (Data (rev acc))) (tokenize True [] cs)
      else if invar \<and> c = CHR ''}'' \<and> d = CHR ''}''
        then map_option (Cons (Variable (rev acc))) (tokenize False [] cs)
      else tokenize invar (c # acc) (d # cs))"

text \<open>
  Jinja drops one newline at the end of the template source before lexing it
  (\<^verbatim>\<open>keep_trailing_newline\<close> is off by default).
\<close>

fun drop_trailing_newline :: "string \<Rightarrow> string" where
  "drop_trailing_newline [] = []"
| "drop_trailing_newline [c] = (if c = newline then [] else [c])"
| "drop_trailing_newline (c # d # cs) = c # drop_trailing_newline (d # cs)"

text \<open>
  Expressions: a name, a non-negative integer literal, and \<^verbatim>\<open>or\<close> between them, the
  words separated by blanks. \<^verbatim>\<open>a or b\<close> is Python's: \<^verbatim>\<open>a\<close> when \<^verbatim>\<open>a\<close> is true as a
  condition, else \<^verbatim>\<open>b\<close>.
\<close>

datatype expr = Name string | Const int | Or expr expr

fun words_of :: "string \<Rightarrow> string \<Rightarrow> string list" where
  "words_of acc [] = (if acc = [] then [] else [rev acc])"
| "words_of acc (c # cs) =
     (if c = CHR '' '' then (if acc = [] then words_of [] cs else rev acc # words_of [] cs)
      else words_of (c # acc) cs)"

definition is_digit :: "char \<Rightarrow> bool" where
  "is_digit c = (c \<in> set ''0123456789'')"

definition is_name_start :: "char \<Rightarrow> bool" where
  "is_name_start c =
     (c \<in> set ''abcdefghijklmnopqrstuvwxyzABCDEFGHIJKLMNOPQRSTUVWXYZ_'')"

definition is_name :: "string \<Rightarrow> bool" where
  "is_name w = (w \<noteq> [] \<and> is_name_start (hd w) \<and>
     list_all (\<lambda>c. is_name_start c \<or> is_digit c) w)"

definition reserved :: "string list" where
  "reserved = [''and'', ''or'', ''not'', ''in'', ''is'', ''if'', ''else'',
     ''true'', ''false'', ''none'', ''True'', ''False'', ''None'']"

definition digit_value :: "char \<Rightarrow> nat" where
  "digit_value c = of_char c - 48"

definition int_literal :: "string \<Rightarrow> int" where
  "int_literal w = int (foldl (\<lambda>n c. 10 * n + digit_value c) 0 w)"

definition parse_atom :: "string \<Rightarrow> expr option" where
  "parse_atom w =
     (if w \<noteq> [] \<and> list_all is_digit w then Some (Const (int_literal w))
      else if is_name w \<and> \<not> List.member reserved w then Some (Name w)
      else None)"

fun parse_or :: "string list \<Rightarrow> expr option" where
  "parse_or [] = None"
| "parse_or [w] = parse_atom w"
| "parse_or (w # k # ws) =
     (if k = ''or'' then
        (case parse_atom w of
           None \<Rightarrow> None
         | Some a \<Rightarrow> (case parse_or ws of None \<Rightarrow> None | Some b \<Rightarrow> Some (Or a b)))
      else None)"

definition parse_expr :: "string \<Rightarrow> expr option" where
  "parse_expr s = parse_or (words_of [] s)"

fun eval :: "py_context \<Rightarrow> expr \<Rightarrow> pyval" where
  "eval ctx (Name n) = (case ctx n of None \<Rightarrow> Undefined | Some v \<Rightarrow> v)"
| "eval ctx (Const i) = PyInt i"
| "eval ctx (Or a b) = (let v = eval ctx a in if truthy v then v else eval ctx b)"

fun render_tokens :: "py_context \<Rightarrow> token list \<Rightarrow> render_error + string" where
  "render_tokens ctx [] = Inr []"
| "render_tokens ctx (Data s # ts) =
     (case render_tokens ctx ts of Inl e \<Rightarrow> Inl e | Inr r \<Rightarrow> Inr (s @ r))"
| "render_tokens ctx (Variable s # ts) =
     (case parse_expr s of
        None \<Rightarrow> Inl TemplateSyntaxError
      | Some e \<Rightarrow>
          (case render_tokens ctx ts of
             Inl err \<Rightarrow> Inl err
           | Inr r \<Rightarrow> Inr (py_str (eval ctx e) @ r)))"

definition render_template :: "py_context \<Rightarrow> render_error + string" where
  "render_template ctx =
     (case tokenize False [] (drop_trailing_newline icasadi_config_h) of
        None \<Rightarrow> Inl TemplateSyntaxError
      | Some ts \<Rightarrow> render_tokens ctx ts)"

section \<open>The caller's side: problem dimensions\<close>

text \<open>
  Modelled from the spec: the record \<^verbatim>\<open>ProblemDimensions\<close> and the call that hands its
  fields to the template are not part of the template file. The three counts are integers
  and the penalty count is optional; the template's comments say which variable is which
  count (\<^verbatim>\<open>nu\<close> the decision variables, \<^verbatim>\<open>np\<close> the parameters, \<^verbatim>\<open>ncp\<close> the
  constraints treated by the penalty method). An absent penalty count is a variable the
  context does not bind; a caller that binds it to \<^verbatim>\<open>None\<close> instead gets the same text
  (the last theorem of this file).
\<close>

record ProblemDimensions =
  decision_variable_count :: int
  parameter_count :: int
  penalty_constraint_count :: "int option"

definition context_of :: "ProblemDimensions \<Rightarrow> py_context" where
  "context_of d =
     (case penalty_constraint_count d of
        None \<Rightarrow>
          [''nu'' \<mapsto> PyInt (decision_variable_count d),
           ''np'' \<mapsto> PyInt (parameter_count d)]
      | Some n \<Rightarrow>
          [''nu'' \<mapsto> PyInt (decision_variable_count d),
           ''np'' \<mapsto> PyInt (parameter_count d),
           ''ncp'' \<mapsto> PyInt n])"

definition render :: "ProblemDimensions \<Rightarrow> render_error + string" where
  "render d = render_template (context_of d)"

text \<open>The integer that \<^verbatim>\<open>ncp or 0\<close> prints for the dimensions \<open>d\<close>.\<close>

definition printed_penalty :: "ProblemDimensions \<Rightarrow> int" where
  "printed_penalty d = (case penalty_constraint_count d of None \<Rightarrow> 0 | Some n \<Rightarrow> n)"

section \<open>Reading a rendered header\<close>

text \<open>
  The properties of the output are stated on its lines and on the preprocessor
  directives the lines hold. The directives read here are the three forms the template
  has: \<^verbatim>\<open>#ifndef NAME\<close>, \<^verbatim>\<open>#define NAME replacement\<close> and \<^verbatim>\<open>#endif\<close>, each at
  the start of a line and with single blanks.
\<close>

primrec split_lines :: "string \<Rightarrow> string list" where
  "split_lines [] = [[]]"
| "split_lines (c # cs) =
     (if c = newline then [] # split_lines cs
      else (case split_lines cs of [] \<Rightarrow> [[c]] | l # ls \<Rightarrow> (c # l) # ls))"

text \<open>
  The rendered header, in closed form: the template's lines with lines 12, 15 and 18
  (indices 11, 14 and 17) ending in the three printed values.
\<close>

definition header_lines :: "string \<Rightarrow> string \<Rightarrow> string \<Rightarrow> string list" where
  "header_lines a b c =
     template_lines
       [11 := ''#define CASADI_NU '' @ a,
        14 := ''#define CASADI_NP '' @ b,
        17 := ''#define CASADI_NUM_CONSTAINTS_TYPE_PENALTY '' @ c]"

datatype directive = Ifndef string | Define string string | Endif | Text

definition starts_with :: "string \<Rightarrow> string \<Rightarrow> bool" where
  "starts_with p s = (take (length p) s = p)"

definition directive_of :: "string \<Rightarrow> directive" where
  "directive_of l =
     (if starts_with ''#ifndef '' l then Ifndef (drop 8 l)
      else if starts_with ''#define '' l then
        Define (takeWhile (\<lambda>c. c \<noteq> CHR '' '') (drop 8 l))
               (drop 1 (dropWhile (\<lambda>c. c \<noteq> CHR '' '') (drop 8 l)))
      else if starts_with ''#endif'' l then Endif
      else Text)"

definition directives :: "string \<Rightarrow> directive list" where
  "directives t = map directive_of (split_lines t)"

fun collect_defines :: "directive list \<Rightarrow> (string \<times> string) list" where
  "collect_defines [] = []"
| "collect_defines (Define n v # ds) = (n, v) # collect_defines ds"
| "collect_defines (Ifndef n # ds) = collect_defines ds"
| "collect_defines (Endif # ds) = collect_defines ds"
| "collect_defines (Text # ds) = collect_defines ds"

definition macro_definitions :: "string \<Rightarrow> (string \<times> string) list" where
  "macro_definitions t = collect_defines (directives t)"

definition macro_value :: "string \<Rightarrow> string \<Rightarrow> string option" where
  "macro_value t n = map_of (macro_definitions t) n"

definition is_integer_literal :: "string \<Rightarrow> bool" where
  "is_integer_literal s =
     (case s of
        [] \<Rightarrow> False
      | c # cs \<Rightarrow> if c = CHR ''-'' then cs \<noteq> [] \<and> list_all is_digit cs
                  else list_all is_digit s)"

definition numeric_macros :: "string \<Rightarrow> (string \<times> string) list" where
  "numeric_macros t = filter (\<lambda>nv. is_integer_literal (snd nv)) (macro_definitions t)"

definition name_macros :: "string \<Rightarrow> (string \<times> string) list" where
  "name_macros t = filter (\<lambda>nv. is_name (snd nv)) (macro_definitions t)"

text \<open>
  Including a header: the preprocessor walks the directives with the stack of the open
  conditionals and the macros defined so far. A \<^verbatim>\<open>#define\<close> in a live region of a
  name that is already defined is reported as a duplicate definition, an \<^verbatim>\<open>#endif\<close>
  with no open conditional and a conditional left open at the end are errors.
\<close>

datatype cpp_error = DuplicateDefinition string | UnbalancedConditional

fun cpp :: "directive list \<Rightarrow> bool list \<Rightarrow> (string \<times> string) list \<Rightarrow>
    cpp_error + (string \<times> string) list" where
  "cpp [] stk defs = (if stk = [] then Inr defs else Inl UnbalancedConditional)"
| "cpp (Ifndef n # ds) stk defs = cpp ds ((map_of defs n = None) # stk) defs"
| "cpp (Define n v # ds) stk defs =
     (if list_all (\<lambda>b. b) stk then
        (if map_of defs n = None then cpp ds stk (defs @ [(n, v)])
         else Inl (DuplicateDefinition n))
      else cpp ds stk defs)"
| "cpp (Endif # ds) stk defs =
     (case stk of [] \<Rightarrow> Inl UnbalancedConditional | b # stk' \<Rightarrow> cpp ds stk' defs)"
| "cpp (Text # ds) stk defs = cpp ds stk defs"

definition include_twice :: "string \<Rightarrow> cpp_error + (string \<times> string) list" where
  "include_twice t = cpp (directives t @ directives t) [] []"

definition include_once :: "string \<Rightarrow> cpp_error + (string \<times> string) list" where
  "include_once t = cpp (directives t) [] []"

section \<open>The lexer on the template\<close>

lemma tokenize_data_run:
  "CHR ''{'' \<notin> set xs \<Longrightarrow> tokenize False acc (xs @ rest) = tokenize False (rev xs @ acc) rest"
proof (induction xs arbitrary: acc)
  case Nil
  show ?case by simp
next
  case (Cons c xs)
  note step = Cons.IH [of "c # acc"] and plain = Cons.prems
  show ?case
  proof (cases "xs @ rest")
    case Nil
    then show ?thesis by simp
  next
    case more: (Cons d cs)
    have "c \<noteq> CHR ''{''"
      using plain by auto
    then have "tokenize False acc ((c # xs) @ rest) = tokenize False (c # acc) (xs @ rest)"
      using more by simp
    also have "\<dots> = tokenize False (rev xs @ c # acc) rest"
      using step plain by simp
    finally show ?thesis by simp
  qed
qed

lemma tokenize_var_run:
  "CHR ''}'' \<notin> set xs \<Longrightarrow> tokenize True acc (xs @ rest) = tokenize True (rev xs @ acc) rest"
proof (induction xs arbitrary: acc)
  case Nil
  show ?case by simp
next
  case (Cons c xs)
  note step = Cons.IH [of "c # acc"] and plain = Cons.prems
  show ?case
  proof (cases "xs @ rest")
    case Nil
    then show ?thesis by simp
  next
    case more: (Cons d cs)
    have "c \<noteq> CHR ''}''"
      using plain by auto
    then have "tokenize True acc ((c # xs) @ rest) = tokenize True (c # acc) (xs @ rest)"
      using more by simp
    also have "\<dots> = tokenize True (rev xs @ c # acc) rest"
      using step plain by simp
    finally show ?thesis by simp
  qed
qed

lemma tokenize_data_then_variable:
  assumes "CHR ''{'' \<notin> set s" and "CHR ''}'' \<notin> set v"
  shows "tokenize False [] (s @ ''{{'' @ v @ ''}}'' @ rest) =
         map_option (\<lambda>ts. Data s # Variable v # ts) (tokenize False [] rest)"
proof -
  have "tokenize False [] (s @ ''{{'' @ v @ ''}}'' @ rest) =
        tokenize False (rev s) (''{{'' @ v @ ''}}'' @ rest)"
    using tokenize_data_run [OF assms(1), of "[]"] by simp
  also have "\<dots> = map_option (Cons (Data s)) (tokenize True [] (v @ ''}}'' @ rest))"
    by simp
  also have "tokenize True [] (v @ ''}}'' @ rest) = tokenize True (rev v) (''}}'' @ rest)"
    using tokenize_var_run [OF assms(2), of "[]"] by simp
  also have "\<dots> = map_option (Cons (Variable v)) (tokenize False [] rest)"
    by simp
  finally show ?thesis
    by (simp add: option.map_comp comp_def)
qed

lemma tokenize_data_end:
  "CHR ''{'' \<notin> set s \<Longrightarrow> tokenize False [] s = Some [Data s]"
  using tokenize_data_run [of s "[]" "[]"] by simp

subsection \<open>The template is three expressions between four pieces of text\<close>

lemma template_segments:
  "drop_trailing_newline icasadi_config_h =
     join_lines (take 11 template_lines @ [''#define CASADI_NU ''])
     @ ''{{'' @ ''nu'' @ ''}}''
     @ join_lines ([[]] @ take 2 (drop 12 template_lines) @ [''#define CASADI_NP ''])
     @ ''{{'' @ ''np'' @ ''}}''
     @ join_lines ([[]] @ take 2 (drop 15 template_lines) @ [''#define CASADI_NUM_CONSTAINTS_TYPE_PENALTY ''])
     @ ''{{'' @ ''ncp or 0'' @ ''}}''
     @ join_lines ([[]] @ drop 18 template_lines)"
  by (simp add: icasadi_config_h_def template_lines_def)


lemma parse_expr_nu: "parse_expr ''nu'' = Some (Name ''nu'')"
  by (simp add: parse_expr_def parse_atom_def is_name_def is_name_start_def is_digit_def
      reserved_def)

lemma parse_expr_np: "parse_expr ''np'' = Some (Name ''np'')"
  by (simp add: parse_expr_def parse_atom_def is_name_def is_name_start_def is_digit_def
      reserved_def)

lemma parse_expr_ncp: "parse_expr ''ncp or 0'' = Some (Or (Name ''ncp'') (Const 0))"
  by (simp add: parse_expr_def parse_atom_def is_name_def is_name_start_def is_digit_def
      reserved_def int_literal_def digit_value_def)

lemma render_template_closed:
  "render_template ctx =
     Inr (join_lines (header_lines
       (py_str (eval ctx (Name ''nu'')))
       (py_str (eval ctx (Name ''np'')))
       (py_str (eval ctx (Or (Name ''ncp'') (Const 0))))))"
proof -
  define s1 where "s1 = join_lines (take 11 template_lines @ [''#define CASADI_NU ''])"
  define s2 where
    "s2 = join_lines ([[]] @ take 2 (drop 12 template_lines) @ [''#define CASADI_NP ''])"
  define s3 where
    "s3 = join_lines ([[]] @ take 2 (drop 15 template_lines)
            @ [''#define CASADI_NUM_CONSTAINTS_TYPE_PENALTY ''])"
  define s4 where "s4 = join_lines ([[]] @ drop 18 template_lines)"
  have plain: "CHR ''{'' \<notin> set s1" "CHR ''{'' \<notin> set s2" "CHR ''{'' \<notin> set s3"
    "CHR ''{'' \<notin> set s4"
    by (simp_all add: s1_def s2_def s3_def s4_def template_lines_def)
  have names: "CHR ''}'' \<notin> set ''nu''" "CHR ''}'' \<notin> set ''np''"
    "CHR ''}'' \<notin> set ''ncp or 0''"
    by simp_all
  have source: "drop_trailing_newline icasadi_config_h =
      s1 @ ''{{'' @ ''nu'' @ ''}}'' @ s2 @ ''{{'' @ ''np'' @ ''}}'' @ s3
        @ ''{{'' @ ''ncp or 0'' @ ''}}'' @ s4"
    unfolding s1_def s2_def s3_def s4_def by (rule template_segments)
  have tokens: "tokenize False [] (drop_trailing_newline icasadi_config_h) =
      Some [Data s1, Variable ''nu'', Data s2, Variable ''np'', Data s3,
            Variable ''ncp or 0'', Data s4]"
    unfolding source
    by (simp only: tokenize_data_then_variable [OF plain(1) names(1)]
        tokenize_data_then_variable [OF plain(2) names(2)]
        tokenize_data_then_variable [OF plain(3) names(3)]
        tokenize_data_end [OF plain(4)] option.map)
  have "render_template ctx =
      Inr (s1 @ py_str (eval ctx (Name ''nu'')) @ s2 @ py_str (eval ctx (Name ''np'')) @ s3
        @ py_str (eval ctx (Or (Name ''ncp'') (Const 0))) @ s4)"
    unfolding render_template_def tokens
    by (simp only: option.case render_tokens.simps parse_expr_nu parse_expr_np parse_expr_ncp
        sum.case append_Nil2)
  moreover have "s1 @ a @ s2 @ b @ s3 @ c @ s4 = join_lines (header_lines a b c)" for a b c
    by (simp add: s1_def s2_def s3_def s4_def header_lines_def template_lines_def)
  ultimately show ?thesis by simp
qed

subsection \<open>Lines of a joined text\<close>

lemma split_lines_plain: "newline \<notin> set l \<Longrightarrow> split_lines l = [l]"
  by (induction l) auto

lemma split_lines_append:
  "newline \<notin> set l \<Longrightarrow> split_lines (l @ newline # rest) = l # split_lines rest"
  by (induction l) auto

lemma split_join_lines:
  "ls \<noteq> [] \<Longrightarrow> list_all (\<lambda>l. newline \<notin> set l) ls \<Longrightarrow> split_lines (join_lines ls) = ls"
  by (induction ls rule: join_lines.induct) (simp_all add: split_lines_plain split_lines_append)

subsection \<open>The decimal text of an integer\<close>

lemma digit_char_is_digit: "k < 10 \<Longrightarrow> is_digit (digit_char k)"
  unfolding is_digit_def digit_char_def by (rule nth_mem) simp

lemma digits_all_digit: "list_all is_digit (digits n)"
proof (induction n rule: digits.induct)
  case (1 n)
  show ?case
  proof (cases "n < 10")
    case True
    then show ?thesis by (subst digits.simps) (simp add: digit_char_is_digit)
  next
    case False
    then show ?thesis using 1 by (subst digits.simps) (simp add: digit_char_is_digit)
  qed
qed

lemma digits_not_empty: "digits n \<noteq> []"
  by (subst digits.simps) simp

lemma is_digit_not_newline: "is_digit c \<Longrightarrow> c \<noteq> newline"
  by (auto simp: is_digit_def)

lemma is_digit_not_minus: "is_digit c \<Longrightarrow> c \<noteq> CHR ''-''"
  by (auto simp: is_digit_def)

lemma digits_no_newline: "newline \<notin> set (digits n)"
  using digits_all_digit [of n] is_digit_not_newline by (auto simp: list_all_iff)

lemma str_int_no_newline: "newline \<notin> set (str_int i)"
  by (simp add: str_int_def digits_no_newline)

lemma str_int_integer_literal: "is_integer_literal (str_int i)"
proof (cases "i < 0")
  case True
  then show ?thesis
    by (simp add: str_int_def is_integer_literal_def digits_all_digit digits_not_empty)
next
  case False
  obtain c cs where shape: "digits (nat i) = c # cs"
    using digits_not_empty [of "nat i"] by (cases "digits (nat i)") auto
  have "is_digit c"
    using digits_all_digit [of "nat i"] shape by simp
  then have "c \<noteq> CHR ''-''"
    by (rule is_digit_not_minus)
  then show ?thesis
    using False shape digits_all_digit [of "nat i"]
    by (simp add: str_int_def is_integer_literal_def)
qed

subsection \<open>Rendering problem dimensions\<close>

lemma render_closed:
  "render d = Inr (join_lines (header_lines (str_int (decision_variable_count d))
      (str_int (parameter_count d)) (str_int (printed_penalty d))))"
  unfolding render_def render_template_closed
  by (simp add: context_of_def printed_penalty_def split: option.split)

lemma header_lines_split:
  assumes "newline \<notin> set a" "newline \<notin> set b" "newline \<notin> set c"
  shows "split_lines (join_lines (header_lines a b c)) = header_lines a b c"
proof (rule split_join_lines)
  show "header_lines a b c \<noteq> []"
    by (simp add: header_lines_def template_lines_def)
  show "list_all (\<lambda>l. newline \<notin> set l) (header_lines a b c)"
    using assms by (simp add: header_lines_def template_lines_def)
qed

lemma header_directives:
  "map directive_of (header_lines a b c) =
    [Text, Text, Text, Text, Text,
     Ifndef ''ICASADI_CONFIG_HEADER_SENTINEL'',
     Define ''ICASADI_CONFIG_HEADER_SENTINEL'' [],
     Text, Text, Text, Text,
     Define ''CASADI_NU'' a,
     Text, Text,
     Define ''CASADI_NP'' b,
     Text, Text,
     Define ''CASADI_NUM_CONSTAINTS_TYPE_PENALTY'' c,
     Text, Text,
     Define ''CASADI_COST_NAME'' ''phi'',
     Text, Text,
     Define ''CASADI_GRAD_NAME'' ''grad_phi'',
     Text, Text,
     Define ''CASADI_CONSTRAINTS_AS_PENALTY_NAME'' ''constraints_as_penalty'',
     Text,
     Endif]"
  by (simp add: header_lines_def template_lines_def directive_of_def starts_with_def)

section \<open>The lines and macros of a rendered header\<close>

lemma header_text_lines:
  "split_lines (join_lines (header_lines (str_int x) (str_int y) (str_int z))) =
     header_lines (str_int x) (str_int y) (str_int z)"
  by (rule header_lines_split) (rule str_int_no_newline)+

lemma header_text_directives:
  "directives (join_lines (header_lines (str_int x) (str_int y) (str_int z))) =
     map directive_of (header_lines (str_int x) (str_int y) (str_int z))"
  by (simp only: directives_def header_text_lines)

lemma header_text_macros:
  "macro_definitions (join_lines (header_lines (str_int x) (str_int y) (str_int z))) =
    [(''ICASADI_CONFIG_HEADER_SENTINEL'', []),
     (''CASADI_NU'', str_int x),
     (''CASADI_NP'', str_int y),
     (''CASADI_NUM_CONSTAINTS_TYPE_PENALTY'', str_int z),
     (''CASADI_COST_NAME'', ''phi''),
     (''CASADI_GRAD_NAME'', ''grad_phi''),
     (''CASADI_CONSTRAINTS_AS_PENALTY_NAME'', ''constraints_as_penalty'')]"
  unfolding macro_definitions_def header_text_directives header_directives by simp

lemma header_lines_nth:
  "header_lines a b c ! 11 = ''#define CASADI_NU '' @ a"
  "header_lines a b c ! 14 = ''#define CASADI_NP '' @ b"
  "header_lines a b c ! 17 = ''#define CASADI_NUM_CONSTAINTS_TYPE_PENALTY '' @ c"
  by (simp_all add: header_lines_def template_lines_def)

lemma header_lines_shape:
  "length (header_lines a b c) = 29"
  "last (header_lines a b c) = ''#endif''"
  "take 5 (header_lines a b c) = take 5 template_lines"
  by (simp_all add: header_lines_def template_lines_def)

lemma str_int_small:
  "str_int 0 = ''0''" "str_int 2 = ''2''" "str_int 3 = ''3''" "str_int 5 = ''5''" "str_int 7 = ''7''"
  "str_int (- 1) = ''-1''"
  by (simp_all add: str_int_def digits.simps digit_char_def)

lemma integer_literal_not_name: "is_integer_literal s \<Longrightarrow> \<not> is_name s"
  by (cases s) (auto simp: is_integer_literal_def is_name_def is_name_start_def is_digit_def
      split: if_splits)

lemma header_text_numeric_macros:
  "numeric_macros (join_lines (header_lines (str_int x) (str_int y) (str_int z))) =
    [(''CASADI_NU'', str_int x),
     (''CASADI_NP'', str_int y),
     (''CASADI_NUM_CONSTAINTS_TYPE_PENALTY'', str_int z)]"
  unfolding numeric_macros_def header_text_macros
  by (simp add: str_int_integer_literal) (simp add: is_integer_literal_def is_digit_def)

lemma header_text_name_macros:
  "name_macros (join_lines (header_lines (str_int x) (str_int y) (str_int z))) =
    [(''CASADI_COST_NAME'', ''phi''),
     (''CASADI_GRAD_NAME'', ''grad_phi''),
     (''CASADI_CONSTRAINTS_AS_PENALTY_NAME'', ''constraints_as_penalty'')]"
  unfolding name_macros_def header_text_macros
  by (simp add: integer_literal_not_name [OF str_int_integer_literal])
     (simp add: is_name_def is_name_start_def)

lemma header_include_once:
  "cpp (map directive_of (header_lines a b c)) [] [] =
    Inr [(''ICASADI_CONFIG_HEADER_SENTINEL'', []),
         (''CASADI_NU'', a),
         (''CASADI_NP'', b),
         (''CASADI_NUM_CONSTAINTS_TYPE_PENALTY'', c),
         (''CASADI_COST_NAME'', ''phi''),
         (''CASADI_GRAD_NAME'', ''grad_phi''),
         (''CASADI_CONSTRAINTS_AS_PENALTY_NAME'', ''constraints_as_penalty'')]"
  unfolding header_directives by simp

lemma header_include_twice:
  "cpp (map directive_of (header_lines a b c) @ map directive_of (header_lines a b c)) [] [] =
    Inr [(''ICASADI_CONFIG_HEADER_SENTINEL'', []),
         (''CASADI_NU'', a),
         (''CASADI_NP'', b),
         (''CASADI_NUM_CONSTAINTS_TYPE_PENALTY'', c),
         (''CASADI_COST_NAME'', ''phi''),
         (''CASADI_GRAD_NAME'', ''grad_phi''),
         (''CASADI_CONSTRAINTS_AS_PENALTY_NAME'', ''constraints_as_penalty'')]"
  unfolding header_directives by simp

lemma header_live_directives:
  "filter (\<lambda>x. x \<noteq> Text) (map directive_of (header_lines a b c)) =
    [Ifndef ''ICASADI_CONFIG_HEADER_SENTINEL'',
     Define ''ICASADI_CONFIG_HEADER_SENTINEL'' [],
     Define ''CASADI_NU'' a,
     Define ''CASADI_NP'' b,
     Define ''CASADI_NUM_CONSTAINTS_TYPE_PENALTY'' c,
     Define ''CASADI_COST_NAME'' ''phi'',
     Define ''CASADI_GRAD_NAME'' ''grad_phi'',
     Define ''CASADI_CONSTRAINTS_AS_PENALTY_NAME'' ''constraints_as_penalty'',
     Endif]"
  unfolding header_directives by simp

lemma header_leading_text:
  "takeWhile (\<lambda>x. x = Text) (map directive_of (header_lines a b c)) = replicate 5 Text"
  "map directive_of (header_lines a b c) ! 5 = Ifndef ''ICASADI_CONFIG_HEADER_SENTINEL''"
  unfolding header_directives by (simp_all add: numeral_eq_Suc)

lemma header_lines_negative_one:
  "header_lines ''-1'' ''0'' ''0'' =
    [''/*'',
     '' * Auto-generated header file'',
     '' * This file is part of OptimizationEngine'',
     '' * (see https://alphaville.github.io/optimization-engine/)'',
     '' */'',
     ''#ifndef ICASADI_CONFIG_HEADER_SENTINEL'',
     ''#define ICASADI_CONFIG_HEADER_SENTINEL'',
     '''',
     ''/* Global constant definitions */'',
     '''',
     ''/* Number of decision variables */'',
     ''#define CASADI_NU -1'',
     '''',
     ''/* Number of parameters */'',
     ''#define CASADI_NP 0'',
     '''',
     ''/* Number of constraints to be treated using the penalty method */'',
     ''#define CASADI_NUM_CONSTAINTS_TYPE_PENALTY 0'',
     '''',
     ''/* Name of cost function */'',
     ''#define CASADI_COST_NAME phi'',
     '''',
     ''/* Name of the gradient of the cost function */'',
     ''#define CASADI_GRAD_NAME grad_phi'',
     '''',
     ''/* Name of c(x) -- constraints as penalties */'',
     ''#define CASADI_CONSTRAINTS_AS_PENALTY_NAME constraints_as_penalty'',
     '''',
     ''#endif'']"
  by (simp add: header_lines_def template_lines_def)

lemma unguarded_twice_duplicate:
  "cpp ([Define ''ICASADI_CONFIG_HEADER_SENTINEL'' [], Define ''CASADI_NU'' a]
      @ [Define ''ICASADI_CONFIG_HEADER_SENTINEL'' [], Define ''CASADI_NU'' a]) [] [] =
     Inl (DuplicateDefinition ''ICASADI_CONFIG_HEADER_SENTINEL'')"
  by simp

lemma str_int_negative: "i < 0 \<Longrightarrow> str_int i = CHR ''-'' # digits (nat (- i))"
  by (simp add: str_int_def)

section \<open>The claims\<close>

text \<open>
  Claim C1. Rendering the dimensions with 5 decision variables, 7 parameters and 2
  penalty constraints succeeds, and the header defines \<^verbatim>\<open>CASADI_NU\<close> as 5,
  \<^verbatim>\<open>CASADI_NP\<close> as 7 and \<^verbatim>\<open>CASADI_NUM_CONSTAINTS_TYPE_PENALTY\<close> as 2, on lines
  12, 15 and 18 of the file.
\<close>

theorem field_mapping:
  "\<exists>t. render \<lparr>decision_variable_count = 5, parameter_count = 7,
         penalty_constraint_count = Some 2\<rparr> = Inr t
     \<and> macro_value t ''CASADI_NU'' = Some ''5''
     \<and> macro_value t ''CASADI_NP'' = Some ''7''
     \<and> macro_value t ''CASADI_NUM_CONSTAINTS_TYPE_PENALTY'' = Some ''2''
     \<and> split_lines t ! 11 = ''#define CASADI_NU 5''
     \<and> split_lines t ! 14 = ''#define CASADI_NP 7''
     \<and> split_lines t ! 17 = ''#define CASADI_NUM_CONSTAINTS_TYPE_PENALTY 2''"
proof -
  let ?d = "\<lparr>decision_variable_count = 5, parameter_count = 7,
    penalty_constraint_count = Some 2\<rparr>"
  let ?t = "join_lines (header_lines (str_int 5) (str_int 7) (str_int 2))"
  have "render ?d = Inr ?t"
    by (simp add: render_closed printed_penalty_def)
  moreover have "macro_value ?t ''CASADI_NU'' = Some ''5''"
    "macro_value ?t ''CASADI_NP'' = Some ''7''"
    "macro_value ?t ''CASADI_NUM_CONSTAINTS_TYPE_PENALTY'' = Some ''2''"
    unfolding macro_value_def header_text_macros by (simp_all add: str_int_small)
  moreover have "split_lines ?t ! 11 = ''#define CASADI_NU 5''"
    "split_lines ?t ! 14 = ''#define CASADI_NP 7''"
    "split_lines ?t ! 17 = ''#define CASADI_NUM_CONSTAINTS_TYPE_PENALTY 2''"
    unfolding header_text_lines header_lines_nth by (simp_all add: str_int_small)
  ultimately show ?thesis by blast
qed


text \<open>
  Claim C2. Whenever the penalty count is absent, the header defines
  \<^verbatim>\<open>CASADI_NUM_CONSTAINTS_TYPE_PENALTY\<close> as the literal 0: line 18 is the complete
  definition, with nothing missing after the macro's name.
\<close>

theorem default_substitution:
  "penalty_constraint_count d = None \<Longrightarrow>
   \<exists>t. render d = Inr t
     \<and> macro_value t ''CASADI_NUM_CONSTAINTS_TYPE_PENALTY'' = Some ''0''
     \<and> split_lines t ! 17 = ''#define CASADI_NUM_CONSTAINTS_TYPE_PENALTY 0''"
proof -
  assume absent: "penalty_constraint_count d = None"
  let ?t = "join_lines (header_lines (str_int (decision_variable_count d))
    (str_int (parameter_count d)) (str_int 0))"
  have "render d = Inr ?t"
    using absent by (simp add: render_closed printed_penalty_def)
  moreover have "macro_value ?t ''CASADI_NUM_CONSTAINTS_TYPE_PENALTY'' = Some ''0''"
    unfolding macro_value_def header_text_macros by (simp add: str_int_small)
  moreover have "split_lines ?t ! 17 = ''#define CASADI_NUM_CONSTAINTS_TYPE_PENALTY 0''"
    unfolding header_text_lines header_lines_nth by (simp add: str_int_small)
  ultimately show ?thesis by blast
qed

theorem default_substitution_witness:
  "penalty_constraint_count \<lparr>decision_variable_count = 3, parameter_count = 2,
      penalty_constraint_count = None\<rparr> = None
   \<and> (\<exists>t. render \<lparr>decision_variable_count = 3, parameter_count = 2,
           penalty_constraint_count = None\<rparr> = Inr t
        \<and> macro_value t ''CASADI_NUM_CONSTAINTS_TYPE_PENALTY'' = Some ''0''
        \<and> split_lines t ! 17 = ''#define CASADI_NUM_CONSTAINTS_TYPE_PENALTY 0'')"
  using default_substitution [of "\<lparr>decision_variable_count = 3, parameter_count = 2,
      penalty_constraint_count = None\<rparr>"]
  by simp

text \<open>
  Claim C3. The text depends on nothing but the three counts: rendering the template in
  any context that binds \<^verbatim>\<open>nu\<close>, \<^verbatim>\<open>np\<close> and \<^verbatim>\<open>ncp\<close> as the dimensions \<open>d\<close> do,
  whatever else that context holds, succeeds with the same bytes as \<open>render d\<close>.
\<close>

theorem render_deterministic:
  assumes "ctx ''nu'' = context_of d ''nu''"
    and "ctx ''np'' = context_of d ''np''"
    and "ctx ''ncp'' = context_of d ''ncp''"
  shows "\<exists>t. render d = Inr t \<and> render_template ctx = Inr t"
proof -
  have "eval ctx (Name ''nu'') = eval (context_of d) (Name ''nu'')"
    "eval ctx (Name ''np'') = eval (context_of d) (Name ''np'')"
    "eval ctx (Or (Name ''ncp'') (Const 0)) = eval (context_of d) (Or (Name ''ncp'') (Const 0))"
    using assms by (simp_all add: Let_def)
  then have "render_template ctx = render_template (context_of d)"
    by (simp only: render_template_closed)
  then show ?thesis
    by (simp add: render_def render_template_closed)
qed

theorem render_deterministic_witness:
  "\<exists>t. render \<lparr>decision_variable_count = 3, parameter_count = 2,
          penalty_constraint_count = None\<rparr> = Inr t
     \<and> render_template [''nu'' \<mapsto> PyInt 3, ''np'' \<mapsto> PyInt 2,
          ''timestamp'' \<mapsto> PyStr ''2019-03-01'', ''seed'' \<mapsto> PyInt 42] = Inr t"
  using render_deterministic [of "[''nu'' \<mapsto> PyInt 3, ''np'' \<mapsto> PyInt 2,
          ''timestamp'' \<mapsto> PyStr ''2019-03-01'', ''seed'' \<mapsto> PyInt 42]"
      "\<lparr>decision_variable_count = 3, parameter_count = 2, penalty_constraint_count = None\<rparr>"]
  by (simp add: context_of_def)

text \<open>
  Claim C4, as stated, fails: for the dimensions with \<open>- 1\<close> decision variables rendering
  does not fail and the text is not empty. It is the complete header, with
  \<^verbatim>\<open>#define CASADI_NU -1\<close> on line 12.
\<close>

theorem negative_count_counterexample:
  "render \<lparr>decision_variable_count = - 1, parameter_count = 0,
       penalty_constraint_count = None\<rparr> =
     Inr (join_lines
      [''/*'',
       '' * Auto-generated header file'',
       '' * This file is part of OptimizationEngine'',
       '' * (see https://alphaville.github.io/optimization-engine/)'',
       '' */'',
       ''#ifndef ICASADI_CONFIG_HEADER_SENTINEL'',
       ''#define ICASADI_CONFIG_HEADER_SENTINEL'',
       '''',
       ''/* Global constant definitions */'',
       '''',
       ''/* Number of decision variables */'',
       ''#define CASADI_NU -1'',
       '''',
       ''/* Number of parameters */'',
       ''#define CASADI_NP 0'',
       '''',
       ''/* Number of constraints to be treated using the penalty method */'',
       ''#define CASADI_NUM_CONSTAINTS_TYPE_PENALTY 0'',
       '''',
       ''/* Name of cost function */'',
       ''#define CASADI_COST_NAME phi'',
       '''',
       ''/* Name of the gradient of the cost function */'',
       ''#define CASADI_GRAD_NAME grad_phi'',
       '''',
       ''/* Name of c(x) -- constraints as penalties */'',
       ''#define CASADI_CONSTRAINTS_AS_PENALTY_NAME constraints_as_penalty'',
       '''',
       ''#endif''])"
  by (simp only: render_closed printed_penalty_def ProblemDimensions.simps option.case
      str_int_small header_lines_negative_one)

text \<open>
  Claim C4, amended. For dimensions in which some count is negative, rendering succeeds
  with the complete header of 29 lines, closed by \<^verbatim>\<open>#endif\<close>; each count macro is
  defined as the decimal text of its count, and a negative count is printed as a minus
  sign before the digits of its absolute value. The template has no check of the counts.
\<close>

theorem negative_count_rendered:
  assumes "decision_variable_count d < 0 \<or> parameter_count d < 0
    \<or> (\<exists>n. penalty_constraint_count d = Some n \<and> n < 0)"
  shows "\<exists>t. render d = Inr t
    \<and> length (split_lines t) = 29
    \<and> last (split_lines t) = ''#endif''
    \<and> macro_value t ''CASADI_NU'' = Some (str_int (decision_variable_count d))
    \<and> macro_value t ''CASADI_NP'' = Some (str_int (parameter_count d))
    \<and> macro_value t ''CASADI_NUM_CONSTAINTS_TYPE_PENALTY'' = Some (str_int (printed_penalty d))
    \<and> (decision_variable_count d < 0 \<longrightarrow> macro_value t ''CASADI_NU'' =
          Some (CHR ''-'' # digits (nat (- decision_variable_count d))))
    \<and> (parameter_count d < 0 \<longrightarrow> macro_value t ''CASADI_NP'' =
          Some (CHR ''-'' # digits (nat (- parameter_count d))))
    \<and> (\<forall>n. penalty_constraint_count d = Some n \<and> n < 0 \<longrightarrow>
          macro_value t ''CASADI_NUM_CONSTAINTS_TYPE_PENALTY'' =
          Some (CHR ''-'' # digits (nat (- n))))"
proof -
  let ?t = "join_lines (header_lines (str_int (decision_variable_count d))
    (str_int (parameter_count d)) (str_int (printed_penalty d)))"
  have "render d = Inr ?t"
    by (rule render_closed)
  moreover have "length (split_lines ?t) = 29" "last (split_lines ?t) = ''#endif''"
    unfolding header_text_lines by (rule header_lines_shape)+
  moreover have nu: "macro_value ?t ''CASADI_NU'' = Some (str_int (decision_variable_count d))"
    and np: "macro_value ?t ''CASADI_NP'' = Some (str_int (parameter_count d))"
    and ncp: "macro_value ?t ''CASADI_NUM_CONSTAINTS_TYPE_PENALTY'' =
      Some (str_int (printed_penalty d))"
    unfolding macro_value_def header_text_macros by simp_all
  moreover have "decision_variable_count d < 0 \<longrightarrow> macro_value ?t ''CASADI_NU'' =
      Some (CHR ''-'' # digits (nat (- decision_variable_count d)))"
    unfolding nu by (simp add: str_int_negative)
  moreover have "parameter_count d < 0 \<longrightarrow> macro_value ?t ''CASADI_NP'' =
      Some (CHR ''-'' # digits (nat (- parameter_count d)))"
    unfolding np by (simp add: str_int_negative)
  moreover have "\<forall>n. penalty_constraint_count d = Some n \<and> n < 0 \<longrightarrow>
      macro_value ?t ''CASADI_NUM_CONSTAINTS_TYPE_PENALTY'' =
      Some (CHR ''-'' # digits (nat (- n)))"
    unfolding ncp by (auto simp add: str_int_negative printed_penalty_def)
  ultimately show ?thesis by blast
qed

theorem negative_count_rendered_witness:
  "decision_variable_count \<lparr>decision_variable_count = - 1, parameter_count = 0,
       penalty_constraint_count = None\<rparr> < 0
   \<and> (\<exists>t. render \<lparr>decision_variable_count = - 1, parameter_count = 0,
            penalty_constraint_count = None\<rparr> = Inr t
        \<and> length (split_lines t) = 29
        \<and> last (split_lines t) = ''#endif''
        \<and> macro_value t ''CASADI_NU'' = Some ''-1''
        \<and> macro_value t ''CASADI_NP'' = Some ''0''
        \<and> macro_value t ''CASADI_NUM_CONSTAINTS_TYPE_PENALTY'' = Some ''0'')"
  using negative_count_rendered [of "\<lparr>decision_variable_count = - 1, parameter_count = 0,
       penalty_constraint_count = None\<rparr>"]
  by (simp add: printed_penalty_def str_int_small) blast

text \<open>
  Claim C5. Whatever two dimensions \<open>d\<close> and \<open>d'\<close> are rendered, the three name macros
  have the same values in both headers: \<^verbatim>\<open>phi\<close>, \<^verbatim>\<open>grad_phi\<close> and
  \<^verbatim>\<open>constraints_as_penalty\<close>.
\<close>

theorem fixed_bindings_invariant:
  "\<exists>t t'. render d = Inr t \<and> render d' = Inr t'
     \<and> map (macro_value t)
         [''CASADI_COST_NAME'', ''CASADI_GRAD_NAME'', ''CASADI_CONSTRAINTS_AS_PENALTY_NAME''] =
       [Some ''phi'', Some ''grad_phi'', Some ''constraints_as_penalty'']
     \<and> map (macro_value t')
         [''CASADI_COST_NAME'', ''CASADI_GRAD_NAME'', ''CASADI_CONSTRAINTS_AS_PENALTY_NAME''] =
       map (macro_value t)
         [''CASADI_COST_NAME'', ''CASADI_GRAD_NAME'', ''CASADI_CONSTRAINTS_AS_PENALTY_NAME'']"
proof -
  have fixed: "map (macro_value (join_lines (header_lines (str_int x) (str_int y) (str_int z))))
      [''CASADI_COST_NAME'', ''CASADI_GRAD_NAME'', ''CASADI_CONSTRAINTS_AS_PENALTY_NAME''] =
      [Some ''phi'', Some ''grad_phi'', Some ''constraints_as_penalty'']" for x y z
    unfolding macro_value_def header_text_macros by simp
  show ?thesis
    unfolding render_closed by (intro exI conjI, rule refl, rule refl) (simp_all only: fixed)
qed

text \<open>
  Claim C6. After the guard's own \<^verbatim>\<open>#define\<close>, a rendered header defines exactly three
  macros with an integer for a value, in the order decision variables, parameters,
  penalty constraints, and then exactly three macros with a name for a value, in the
  order cost, gradient, constraints as penalty; it defines nothing else.
\<close>

theorem macro_order:
  "\<exists>t. render d = Inr t
     \<and> macro_definitions t =
         (''ICASADI_CONFIG_HEADER_SENTINEL'', []) # numeric_macros t @ name_macros t
     \<and> numeric_macros t =
         [(''CASADI_NU'', str_int (decision_variable_count d)),
          (''CASADI_NP'', str_int (parameter_count d)),
          (''CASADI_NUM_CONSTAINTS_TYPE_PENALTY'', str_int (printed_penalty d))]
     \<and> name_macros t =
         [(''CASADI_COST_NAME'', ''phi''),
          (''CASADI_GRAD_NAME'', ''grad_phi''),
          (''CASADI_CONSTRAINTS_AS_PENALTY_NAME'', ''constraints_as_penalty'')]"
  unfolding render_closed
  by (simp add: header_text_numeric_macros header_text_name_macros header_text_macros)

text \<open>
  Claim C7. The directives of a rendered header are, in order, \<^verbatim>\<open>#ifndef\<close> and
  \<^verbatim>\<open>#define\<close> of the one name \<^verbatim>\<open>ICASADI_CONFIG_HEADER_SENTINEL\<close>, the six
  definitions, and the \<^verbatim>\<open>#endif\<close> that closes the conditional. Including the header
  once defines its macros, and including it twice gives the same result as including it
  once, with no duplicate definition.
\<close>

theorem inclusion_guard:
  "\<exists>t. render d = Inr t
     \<and> filter (\<lambda>x. x \<noteq> Text) (directives t) =
         [Ifndef ''ICASADI_CONFIG_HEADER_SENTINEL'',
          Define ''ICASADI_CONFIG_HEADER_SENTINEL'' [],
          Define ''CASADI_NU'' (str_int (decision_variable_count d)),
          Define ''CASADI_NP'' (str_int (parameter_count d)),
          Define ''CASADI_NUM_CONSTAINTS_TYPE_PENALTY'' (str_int (printed_penalty d)),
          Define ''CASADI_COST_NAME'' ''phi'',
          Define ''CASADI_GRAD_NAME'' ''grad_phi'',
          Define ''CASADI_CONSTRAINTS_AS_PENALTY_NAME'' ''constraints_as_penalty'',
          Endif]
     \<and> include_once t = Inr (macro_definitions t)
     \<and> include_twice t = include_once t"
  unfolding render_closed
  by (simp add: include_once_def include_twice_def header_text_directives
      header_live_directives header_include_once header_include_twice header_text_macros)

text \<open>
  Claim C8. The first five lines of a rendered header are the comment block that says the
  file is auto-generated and part of OptimizationEngine. They hold no directive; the
  first directive, the \<^verbatim>\<open>#ifndef\<close> of the guard, is on the line after them.
\<close>

theorem leading_comment:
  "\<exists>t. render d = Inr t
     \<and> take 5 (split_lines t) =
         [''/*'',
          '' * Auto-generated header file'',
          '' * This file is part of OptimizationEngine'',
          '' * (see https://alphaville.github.io/optimization-engine/)'',
          '' */'']
     \<and> takeWhile (\<lambda>x. x = Text) (directives t) = replicate 5 Text
     \<and> directives t ! 5 = Ifndef ''ICASADI_CONFIG_HEADER_SENTINEL''"
proof -
  let ?t = "join_lines (header_lines (str_int (decision_variable_count d))
    (str_int (parameter_count d)) (str_int (printed_penalty d)))"
  have "render d = Inr ?t"
    by (rule render_closed)
  moreover have "take 5 (split_lines ?t) =
         [''/*'',
          '' * Auto-generated header file'',
          '' * This file is part of OptimizationEngine'',
          '' * (see https://alphaville.github.io/optimization-engine/)'',
          '' */'']"
    unfolding header_text_lines header_lines_shape by (simp add: template_lines_def)
  moreover have "takeWhile (\<lambda>x. x = Text) (directives ?t) = replicate 5 Text"
    "directives ?t ! 5 = Ifndef ''ICASADI_CONFIG_HEADER_SENTINEL''"
    unfolding header_text_directives by (rule header_leading_text)+
  ultimately show ?thesis by blast
qed

text \<open>
  Claim C9. The names a rendered header defines are, letter for letter,
  \<^verbatim>\<open>CASADI_NU\<close>, \<^verbatim>\<open>CASADI_NP\<close>, \<^verbatim>\<open>CASADI_NUM_CONSTAINTS_TYPE_PENALTY\<close>,
  \<^verbatim>\<open>CASADI_COST_NAME\<close> with value \<^verbatim>\<open>phi\<close>, \<^verbatim>\<open>CASADI_GRAD_NAME\<close> with value
  \<^verbatim>\<open>grad_phi\<close> and \<^verbatim>\<open>CASADI_CONSTRAINTS_AS_PENALTY_NAME\<close> with value
  \<^verbatim>\<open>constraints_as_penalty\<close>, after the guard's name. The penalty count is defined
  under the spelling CONSTAINTS; no macro \<^verbatim>\<open>CASADI_NUM_CONSTRAINTS_TYPE_PENALTY\<close> is
  defined.
\<close>

theorem macro_names:
  "\<exists>t. render d = Inr t
     \<and> map fst (macro_definitions t) =
         [''ICASADI_CONFIG_HEADER_SENTINEL'',
          ''CASADI_NU'',
          ''CASADI_NP'',
          ''CASADI_NUM_CONSTAINTS_TYPE_PENALTY'',
          ''CASADI_COST_NAME'',
          ''CASADI_GRAD_NAME'',
          ''CASADI_CONSTRAINTS_AS_PENALTY_NAME'']
     \<and> macro_value t ''CASADI_COST_NAME'' = Some ''phi''
     \<and> macro_value t ''CASADI_GRAD_NAME'' = Some ''grad_phi''
     \<and> macro_value t ''CASADI_CONSTRAINTS_AS_PENALTY_NAME'' = Some ''constraints_as_penalty''
     \<and> macro_value t ''CASADI_NUM_CONSTAINTS_TYPE_PENALTY'' = Some (str_int (printed_penalty d))
     \<and> macro_value t ''CASADI_NUM_CONSTRAINTS_TYPE_PENALTY'' = None"
  unfolding render_closed
  by (simp add: macro_value_def header_text_macros)

text \<open>
  Claim C10. Dimensions with the penalty count given as 0 and the same dimensions with
  the penalty count absent render to the same text, which defines
  \<^verbatim>\<open>CASADI_NUM_CONSTAINTS_TYPE_PENALTY\<close> as 0. On the template itself: a context that
  binds \<^verbatim>\<open>ncp\<close> to 0, or to \<^verbatim>\<open>None\<close>, renders as the same context without a binding
  of \<^verbatim>\<open>ncp\<close>.
\<close>

theorem explicit_zero_same_as_absent:
  "render (d\<lparr>penalty_constraint_count := Some 0\<rparr>) =
     render (d\<lparr>penalty_constraint_count := None\<rparr>)
   \<and> (\<exists>t. render (d\<lparr>penalty_constraint_count := None\<rparr>) = Inr t
        \<and> macro_value t ''CASADI_NUM_CONSTAINTS_TYPE_PENALTY'' = Some ''0'')
   \<and> render_template (ctx(''ncp'' \<mapsto> PyInt 0)) = render_template (ctx(''ncp'' := None))
   \<and> render_template (ctx(''ncp'' \<mapsto> PyNone)) = render_template (ctx(''ncp'' := None))"
proof -
  let ?t = "join_lines (header_lines (str_int (decision_variable_count d))
    (str_int (parameter_count d)) (str_int 0))"
  have "render (d\<lparr>penalty_constraint_count := Some 0\<rparr>) = Inr ?t"
    "render (d\<lparr>penalty_constraint_count := None\<rparr>) = Inr ?t"
    by (simp_all add: render_closed printed_penalty_def)
  moreover have "macro_value ?t ''CASADI_NUM_CONSTAINTS_TYPE_PENALTY'' = Some ''0''"
    unfolding macro_value_def header_text_macros by (simp add: str_int_small)
  moreover have "render_template (ctx(''ncp'' \<mapsto> PyInt 0)) =
      render_template (ctx(''ncp'' := None))"
    "render_template (ctx(''ncp'' \<mapsto> PyNone)) = render_template (ctx(''ncp'' := None))"
    by (simp_all add: render_template_closed)
  ultimately show ?thesis by simp
qed

end
